theory Spec2Isabelle
  imports Complex_Main "HOL-Library.Sublist" "HOL-Library.Multiset"
begin

section \<open>Data model of detector.py\<close>

text \<open>
  Python numbers are modelled exactly: the turnover (VALUE) and every statistic computed
  from it is a \<open>real\<close>, the share volume and the trade count are unbounded \<open>int\<close>s.
  Rounding of binary floating point is outside this model.

  A Python \<open>dict\<close> keeps its keys in insertion order and the code iterates over it and
  sorts what it finds, so a dict is an association list; \<open>dict_set\<close> is the assignment
  \<open>d[k] = v\<close> (replace in place, else append) and \<open>dict_modify\<close> the in-place update
  \<open>d[k][field] += x\<close> of an entry that is present.

  Ticker codes and short names are \<open>string\<close>s. The Cyrillic text of the one message the
  claims speak about is transliterated to ASCII; the placeholders keep their places.
\<close>

type_synonym ('k, 'v) dict = "('k \<times> 'v) list"

fun dict_set :: "('k, 'v) dict \<Rightarrow> 'k \<Rightarrow> 'v \<Rightarrow> ('k, 'v) dict" where
  "dict_set [] k v = [(k, v)]"
| "dict_set ((k', v') # d) k v = (if k' = k then (k, v) # d else (k', v') # dict_set d k v)"

fun dict_modify :: "('k, 'v) dict \<Rightarrow> 'k \<Rightarrow> ('v \<Rightarrow> 'v) \<Rightarrow> ('k, 'v) dict" where
  "dict_modify [] k f = []"
| "dict_modify ((k', v') # d) k f =
     (if k' = k then (k, f v') # d else (k', v') # dict_modify d k f)"

text \<open>One row of the upstream answer, \<open>[SECID, SHORTNAME, VOLUME, VALUE, NUMTRADES]\<close>;
  the three numeric columns may be JSON \<open>null\<close>.\<close>

record raw_row =
  SECID :: string
  SHORTNAME :: string
  VOLUME :: "int option"
  VALUE :: "real option"
  NUMTRADES :: "int option"

text \<open>The aggregated record of one ticker on one date (the dict with the keys
  \<open>shortname\<close>, \<open>volume\<close>, \<open>value\<close>, \<open>numtrades\<close>; \<open>tvalue\<close> is the key \<open>value\<close>).\<close>

record ticker_info =
  shortname :: string
  volume :: int
  tvalue :: real
  numtrades :: int

type_synonym snapshot = "(string, ticker_info) dict"

definition EXCLUDED_TICKER_PREFIXES :: "string list" where
  "EXCLUDED_TICKER_PREFIXES = [''RU000'']"

definition EXCLUDED_SHORTNAME_KEYWORDS :: "string list" where
  "EXCLUDED_SHORTNAME_KEYWORDS = [''ETF'']"

definition MIN_DEVIATION_PERCENT :: real where
  "MIN_DEVIATION_PERCENT = 300"

definition MIN_AVG_VALUE :: real where
  "MIN_AVG_VALUE = 10000000"

definition MAX_RETRIES :: nat where
  "MAX_RETRIES = 5"

definition RETRY_DELAY :: real where
  "RETRY_DELAY = 60"

text \<open>\<open>s.startswith(prefixes)\<close> with a tuple of prefixes.\<close>

definition startswith :: "string \<Rightarrow> string list \<Rightarrow> bool" where
  "startswith s ps = list_ex (\<lambda>p. prefix p s) ps"

text \<open>\<open>x or 0\<close> on a numeric column: \<open>null\<close> and zero both give zero.\<close>

fun or0 :: "'a::zero option \<Rightarrow> 'a" where
  "or0 None = 0"
| "or0 (Some x) = x"

section \<open>aggregate_ticker_data\<close>

fun aggregate_loop :: "raw_row list \<Rightarrow> snapshot \<Rightarrow> snapshot" where
  "aggregate_loop [] aggregated = aggregated"
| "aggregate_loop (row # rest) aggregated =
     (let secid = SECID row in
      if startswith secid EXCLUDED_TICKER_PREFIXES then aggregate_loop rest aggregated
      else
        let shortname' = SHORTNAME row;
            volume' = or0 (VOLUME row);
            value' = or0 (VALUE row);
            numtrades' = or0 (NUMTRADES row);
            aggregated1 =
              (if map_of aggregated secid = None
               then dict_set aggregated secid
                      \<lparr>shortname = shortname', volume = 0, tvalue = 0, numtrades = 0\<rparr>
               else aggregated);
            aggregated2 = dict_modify aggregated1 secid (\<lambda>r. r\<lparr>volume := volume r + volume'\<rparr>);
            aggregated3 = dict_modify aggregated2 secid (\<lambda>r. r\<lparr>tvalue := tvalue r + value'\<rparr>);
            aggregated4 =
              dict_modify aggregated3 secid (\<lambda>r. r\<lparr>numtrades := numtrades r + numtrades'\<rparr>)
        in aggregate_loop rest aggregated4)"

definition aggregate_ticker_data :: "raw_row list \<Rightarrow> snapshot" where
  "aggregate_ticker_data raw_data = aggregate_loop raw_data []"

text \<open>The body of the loop for a row that is not skipped, and its two halves, named for
  the proofs: \<open>new_entry\<close> is the record created for an unseen ticker, \<open>add_row\<close>
  the three \<open>+=\<close>.\<close>

definition new_entry :: "raw_row \<Rightarrow> ticker_info" where
  "new_entry row = \<lparr>shortname = SHORTNAME row, volume = 0, tvalue = 0, numtrades = 0\<rparr>"

definition add_row :: "ticker_info \<Rightarrow> raw_row \<Rightarrow> ticker_info" where
  "add_row a row = a\<lparr>volume := volume a + or0 (VOLUME row),
                      tvalue := tvalue a + or0 (VALUE row),
                      numtrades := numtrades a + or0 (NUMTRADES row)\<rparr>"

definition agg_step :: "raw_row \<Rightarrow> snapshot \<Rightarrow> snapshot" where
  "agg_step row aggregated =
     (let secid = SECID row;
          aggregated1 =
            (if map_of aggregated secid = None
             then dict_set aggregated secid (new_entry row) else aggregated);
          aggregated2 =
            dict_modify aggregated1 secid (\<lambda>r. r\<lparr>volume := volume r + or0 (VOLUME row)\<rparr>);
          aggregated3 =
            dict_modify aggregated2 secid (\<lambda>r. r\<lparr>tvalue := tvalue r + or0 (VALUE row)\<rparr>)
      in dict_modify aggregated3 secid
           (\<lambda>r. r\<lparr>numtrades := numtrades r + or0 (NUMTRADES row)\<rparr>))"

section \<open>calculate_statistics\<close>

text \<open>\<open>str.upper\<close> on ASCII letters, and \<open>keyword in s\<close> as \<^const>\<open>sublist\<close>.\<close>

definition upper_char :: "char \<Rightarrow> char" where
  "upper_char c =
     (case map_of (zip ''abcdefghijklmnopqrstuvwxyz'' ''ABCDEFGHIJKLMNOPQRSTUVWXYZ'') c of
        None \<Rightarrow> c | Some u \<Rightarrow> u)"

definition upper :: "string \<Rightarrow> string" where
  "upper s = map upper_char s"

text \<open>\<open>statistics.mean\<close> and \<open>statistics.stdev\<close> (the sample standard deviation).
  Python raises \<open>StatisticsError\<close> on an empty list, respectively on fewer than two
  values; \<open>calculate_statistics\<close> calls them only behind the guards \<open>if not values\<close> and
  \<open>len(values) >= 2\<close>.\<close>

definition mean :: "real list \<Rightarrow> real" where
  "mean xs = sum_list xs / real (length xs)"

definition stdev :: "real list \<Rightarrow> real" where
  "stdev xs = sqrt (sum_list (map (\<lambda>x. (x - mean xs)\<^sup>2) xs) / real (length xs - 1))"

text \<open>\<open>str(n)\<close> for a length.\<close>

definition digit_char :: "nat \<Rightarrow> char" where
  "digit_char d = ''0123456789'' ! d"

fun str_nat :: "nat \<Rightarrow> string" where
  "str_nat n = (if n < 10 then [digit_char n] else str_nat (n div 10) @ [digit_char (n mod 10)])"

text \<open>The warning of the one-value branch, an f-string with the two placeholders
  \<open>{ticker}\<close> and \<open>{len(values)}\<close> and the literal 5 at its end.\<close>

definition warning_message :: "string \<Rightarrow> nat \<Rightarrow> string" where
  "warning_message ticker n =
     ''Tiker '' @ ticker @ '': tolko '' @ str_nat n @ '' den(ej) dannyh vmesto 5''"

text \<open>The same message with the window length as a third placeholder, which is what the
  specification describes; used only to compare with \<^const>\<open>warning_message\<close>.\<close>

definition spec_warning_message :: "string \<Rightarrow> nat \<Rightarrow> nat \<Rightarrow> string" where
  "spec_warning_message ticker n window =
     ''Tiker '' @ ticker @ '': tolko '' @ str_nat n @ '' den(ej) dannyh vmesto '' @ str_nat window"

record ticker_stats =
  st_shortname :: string
  current_value :: real
  mean_value :: real
  std_value :: real
  z_score :: real
  deviation_pct :: real
  base_days_count :: nat

fun collect_values :: "snapshot list \<Rightarrow> string \<Rightarrow> real list" where
  "collect_values [] ticker = []"
| "collect_values (day_data # rest) ticker =
     (case map_of day_data ticker of
        Some r \<Rightarrow> tvalue r # collect_values rest ticker
      | None \<Rightarrow> collect_values rest ticker)"

definition name_excluded :: "string \<Rightarrow> bool" where
  "name_excluded nm = list_ex (\<lambda>keyword. sublist keyword (upper nm)) EXCLUDED_SHORTNAME_KEYWORDS"

fun calculate_loop ::
  "snapshot list \<Rightarrow> snapshot \<Rightarrow> (string, ticker_stats) dict \<times> string list \<Rightarrow>
     (string, ticker_stats) dict \<times> string list" where
  "calculate_loop base_data [] (stats, warnings) = (stats, warnings)"
| "calculate_loop base_data ((ticker, target_info) # rest) (stats, warnings) =
     (if startswith ticker EXCLUDED_TICKER_PREFIXES
      then calculate_loop base_data rest (stats, warnings)
      else if name_excluded (shortname target_info)
      then calculate_loop base_data rest (stats, warnings)
      else
        let values = collect_values base_data ticker in
        if values = [] then calculate_loop base_data rest (stats, warnings)
        else
          let mean_value' = mean values;
              (std_value', warnings') =
                (if length values \<ge> 2 then (stdev values, warnings)
                 else (if mean_value' > 0 then mean_value' * 0.01 else 1,
                       warnings @ [warning_message ticker (length values)]));
              current_value' = tvalue target_info;
              z_score' =
                (if std_value' > 0 then (current_value' - mean_value') / std_value' else 0);
              deviation_pct' =
                (if mean_value' > 0 then ((current_value' - mean_value') / mean_value') * 100
                 else 0)
          in calculate_loop base_data rest
               (dict_set stats ticker
                  \<lparr>st_shortname = shortname target_info,
                   current_value = current_value',
                   mean_value = mean_value',
                   std_value = std_value',
                   z_score = z_score',
                   deviation_pct = deviation_pct',
                   base_days_count = length values\<rparr>,
                warnings'))"

definition calculate_statistics ::
  "snapshot list \<Rightarrow> snapshot \<Rightarrow> (string, ticker_stats) dict \<times> string list" where
  "calculate_statistics base_data target_data = calculate_loop base_data target_data ([], [])"

text \<open>What one iteration adds for a ticker that is scored, named for the proofs.\<close>

definition synthetic_std :: "real \<Rightarrow> real" where
  "synthetic_std m = (if m > 0 then m * 0.01 else 1)"

definition score :: "real list \<Rightarrow> ticker_info \<Rightarrow> ticker_stats" where
  "score values target_info =
     (let m = mean values;
          s = (if length values \<ge> 2 then stdev values else synthetic_std m);
          c = tvalue target_info
      in \<lparr>st_shortname = shortname target_info,
          current_value = c,
          mean_value = m,
          std_value = s,
          z_score = (if s > 0 then (c - m) / s else 0),
          deviation_pct = (if m > 0 then ((c - m) / m) * 100 else 0),
          base_days_count = length values\<rparr>)"

definition scored :: "snapshot list \<Rightarrow> string \<Rightarrow> ticker_info \<Rightarrow> bool" where
  "scored base_data ticker target_info \<longleftrightarrow>
     \<not> startswith ticker EXCLUDED_TICKER_PREFIXES \<and> \<not> name_excluded (shortname target_info) \<and>
     collect_values base_data ticker \<noteq> []"

section \<open>find_anomalies\<close>

text \<open>\<open>list.sort(key=..., reverse=True)\<close>: the list is reversed, sorted stably in ascending
  order of the key, and reversed again, so entries with equal keys keep the order they had.\<close>

definition sort_reverse :: "('a \<Rightarrow> real) \<Rightarrow> 'a list \<Rightarrow> 'a list" where
  "sort_reverse key xs = rev (sort_key key (rev xs))"

definition is_anomaly :: "real \<Rightarrow> ticker_stats \<Rightarrow> bool" where
  "is_anomaly threshold info \<longleftrightarrow>
     z_score info > threshold \<and> deviation_pct info > MIN_DEVIATION_PERCENT \<and>
     mean_value info \<ge> MIN_AVG_VALUE"

definition find_anomalies ::
  "(string, ticker_stats) dict \<Rightarrow> real \<Rightarrow> (string \<times> ticker_stats) list" where
  "find_anomalies stats threshold =
     (let anomalies = filter (\<lambda>(ticker, info). is_anomaly threshold info) stats
      in sort_reverse (\<lambda>x. z_score (snd x)) anomalies)"

section \<open>fetch_volumes_from_api and load_or_fetch_data\<close>

text \<open>
  The outside world of the fetcher. Every HTTP request either raises a
  \<open>RequestException\<close> or answers with the rows under \<open>history.data\<close>. What the network
  answers is a parameter \<open>net\<close>: it gets the number of requests made before this one,
  the date and the \<open>start\<close> offset asked for, so that the answers may change from one
  request to the next. The effects of the code are recorded in a trace of events, the
  requests and the two kinds of \<open>time.sleep\<close>, and the writes of cache files.
\<close>

datatype response = RequestException | Page "raw_row list"

datatype event = Request string nat | Sleep real | CacheWrite string

datatype py_error = FetchFailed string | IndexError | ZeroDivisionError

type_synonym network = "nat \<Rightarrow> string \<Rightarrow> nat \<Rightarrow> response"

fun is_request :: "event \<Rightarrow> bool" where
  "is_request (Request d s) = True"
| "is_request e = False"

definition nreq :: "event list \<Rightarrow> nat" where
  "nreq tr = length (filter is_request tr)"

text \<open>The \<open>while True\<close> loop of one attempt: \<open>Inl ()\<close> is the exception that leaves the
  \<open>try\<close> block, \<open>Inr all_data\<close> the \<open>break\<close>. The loop has no bound of its own, so it is
  a partial function: \<open>None\<close> is a run that never ends.\<close>

partial_function (option) fetch_pages ::
  "network \<Rightarrow> string \<Rightarrow> nat \<Rightarrow> raw_row list \<Rightarrow> event list \<Rightarrow>
     ((unit + raw_row list) \<times> event list) option" where
  "fetch_pages net date start all_data tr =
     (case net (nreq tr) date start of
        RequestException \<Rightarrow> Some (Inl (), tr @ [Request date start])
      | Page rows \<Rightarrow>
          if rows = [] then Some (Inr all_data, tr @ [Request date start])
          else fetch_pages net date (start + 100) (all_data @ rows)
                 (if length rows = 100 then tr @ [Request date start, Sleep 0.5]
                  else tr @ [Request date start]))"

text \<open>The \<open>for attempt in range(1, MAX_RETRIES + 1)\<close> loop, entered with \<open>attempt = 1\<close>:
  a failed attempt that is not the last one sleeps and goes on with the next attempt, the
  last one raises.\<close>

function fetch_attempts ::
  "network \<Rightarrow> string \<Rightarrow> nat \<Rightarrow> event list \<Rightarrow> ((py_error + snapshot) \<times> event list) option" where
  "fetch_attempts net date attempt tr =
     (case fetch_pages net date 0 [] tr of
        None \<Rightarrow> None
      | Some (Inr all_data, tr1) \<Rightarrow> Some (Inr (aggregate_ticker_data all_data), tr1)
      | Some (Inl e, tr1) \<Rightarrow>
          if attempt < MAX_RETRIES
          then fetch_attempts net date (attempt + 1) (tr1 @ [Sleep RETRY_DELAY])
          else Some (Inl (FetchFailed date), tr1))"
  by pat_completeness auto
termination
  by (relation "measure (\<lambda>(net, date, attempt, tr). MAX_RETRIES - attempt)") auto

definition fetch_volumes_from_api ::
  "network \<Rightarrow> string \<Rightarrow> event list \<Rightarrow> ((py_error + snapshot) \<times> event list) option" where
  "fetch_volumes_from_api net date tr = fetch_attempts net date 1 tr"

text \<open>The cache directory: at most one file per date, holding the date and the tickers.\<close>

record cache_file =
  cf_date :: string
  tickers :: snapshot

record world =
  cache :: "string \<rightharpoonup> cache_file"
  trace :: "event list"

definition load_or_fetch_data ::
  "network \<Rightarrow> string \<Rightarrow> bool \<Rightarrow> world \<Rightarrow> ((py_error + snapshot) \<times> world) option" where
  "load_or_fetch_data net date force w =
     (case (if force then None else cache w date) of
        Some cached \<Rightarrow> Some (Inr (tickers cached), w)
      | None \<Rightarrow>
          (case fetch_volumes_from_api net date (trace w) of
             None \<Rightarrow> None
           | Some (Inl e, tr) \<Rightarrow> Some (Inl e, w\<lparr>trace := tr\<rparr>)
           | Some (Inr data, tr) \<Rightarrow>
               Some (Inr data,
                     w\<lparr>cache := (cache w)(date \<mapsto> \<lparr>cf_date = date, tickers = data\<rparr>),
                       trace := tr @ [CacheWrite date]\<rparr>)))"

text \<open>The events of an attempt that reads \<open>n\<close> non-empty pages \<open>p 0, ..., p (n - 1)\<close>
  from offset \<open>start\<close> on and then an empty one.\<close>

definition page_events :: "string \<Rightarrow> nat \<Rightarrow> (nat \<Rightarrow> raw_row list) \<Rightarrow> nat \<Rightarrow> event list" where
  "page_events date start p n =
     concat (map (\<lambda>i. Request date (start + 100 * i) #
                        (if length (p i) = 100 then [Sleep 0.5] else [])) [0..<n])
     @ [Request date (start + 100 * n)]"

text \<open>Counters on a trace: the cooldowns between attempts and the cache writes.\<close>

definition ncool :: "event list \<Rightarrow> nat" where
  "ncool tr = length (filter (\<lambda>e. e = Sleep RETRY_DELAY) tr)"

definition nwrite :: "event list \<Rightarrow> nat" where
  "nwrite tr = length (filter (\<lambda>e. case e of CacheWrite d \<Rightarrow> True | _ \<Rightarrow> False) tr)"

section \<open>generate_json_report and generate_txt_report\<close>

definition ANOMALY_THRESHOLD_SIGMA :: real where
  "ANOMALY_THRESHOLD_SIGMA = 3"

text \<open>\<open>round(x, ndigits)\<close>, which rounds a tie to the even neighbour.\<close>

definition py_round :: "real \<Rightarrow> nat \<Rightarrow> real" where
  "py_round x ndigits =
     (let y = x * 10 ^ ndigits; f = \<lfloor>y\<rfloor>; d = y - of_int f
      in (if d < 1 / 2 then of_int f
          else if d > 1 / 2 then of_int (f + 1)
          else if even f then of_int f else of_int (f + 1)) / 10 ^ ndigits)"

record report_metadata =
  analysis_date :: string
  base_period_start :: string
  base_period_end :: string
  base_period_days :: nat
  threshold_sigma :: real
  total_tickers :: int
  anomalies_found :: nat

record anomaly_entry =
  rank :: nat
  ticker :: string
  a_shortname :: string
  a_current_value :: real
  avg_value :: real
  a_std_value :: real
  a_z_score :: real
  deviation_percent :: real
  a_base_days_count :: nat

record json_report =
  metadata :: report_metadata
  anomalies :: "anomaly_entry list"
  warnings :: "string list"

text \<open>\<open>base_period[0]\<close> and \<open>base_period[-1]\<close> raise \<open>IndexError\<close> on an empty list.\<close>

definition generate_json_report ::
  "(string \<times> ticker_stats) list \<Rightarrow> string \<Rightarrow> string list \<Rightarrow> int \<Rightarrow> string list \<Rightarrow>
     py_error + json_report" where
  "generate_json_report anoms target_date base_period n_total warns =
     (case base_period of
        [] \<Rightarrow> Inl IndexError
      | d # ds \<Rightarrow>
          Inr \<lparr>metadata =
                 \<lparr>analysis_date = target_date,
                  base_period_start = d,
                  base_period_end = last base_period,
                  base_period_days = length base_period,
                  threshold_sigma = ANOMALY_THRESHOLD_SIGMA,
                  total_tickers = n_total,
                  anomalies_found = length anoms\<rparr>,
               anomalies =
                 map (\<lambda>(rank', (ticker', info)).
                        \<lparr>rank = rank',
                         ticker = ticker',
                         a_shortname = st_shortname info,
                         a_current_value = current_value info,
                         avg_value = mean_value info,
                         a_std_value = std_value info,
                         a_z_score = py_round (z_score info) 2,
                         deviation_percent = py_round (deviation_pct info) 1,
                         a_base_days_count = base_days_count info\<rparr>)
                     (List.enumerate 1 anoms),
               warnings = warns\<rparr>)"

text \<open>The text report is a list of lines joined by newlines. Each line is modelled by what
  it shows, not by its characters: the number formats of the f-strings are not part of the
  model, the values that are formatted are.\<close>

datatype txt_line =
    Rule
  | Title
  | AnalysisDate string
  | BasePeriod string string nat
  | Threshold real
  | Blank
  | Found nat
  | AnomalyHead nat string string
  | Turnover real
  | Average real
  | ZScore real
  | Deviation real
  | BaseDaysNote nat
  | NoneFound
  | StatsHeader
  | TotalTickers int
  | AnomaliesFound nat real
  | DaysUsed nat
  | WarningsHeader
  | WarningLine string
  | MoreWarnings nat

definition anomaly_lines :: "nat \<times> string \<times> ticker_stats \<Rightarrow> txt_line list" where
  "anomaly_lines = (\<lambda>(rank', (ticker', info)).
     [AnomalyHead rank' ticker' (st_shortname info),
      Turnover (current_value info),
      Average (mean_value info),
      ZScore (z_score info),
      Deviation (deviation_pct info)]
     @ (if base_days_count info < 5 then [BaseDaysNote (base_days_count info)] else [])
     @ [Blank])"

definition generate_txt_report ::
  "(string \<times> ticker_stats) list \<Rightarrow> string \<Rightarrow> string list \<Rightarrow> int \<Rightarrow> string list \<Rightarrow>
     py_error + txt_line list" where
  "generate_txt_report anoms target_date base_period n_total warns =
     (case base_period of
        [] \<Rightarrow> Inl IndexError
      | d # ds \<Rightarrow>
          let header =
                [Rule, Title, AnalysisDate target_date,
                 BasePeriod d (last base_period) (length base_period),
                 Threshold ANOMALY_THRESHOLD_SIGMA, Rule, Blank];
              body =
                (if anoms \<noteq> []
                 then [Found (length anoms), Blank]
                      @ concat (map anomaly_lines (List.enumerate 1 anoms))
                 else [NoneFound, Blank])
          in if n_total = 0 then Inl ZeroDivisionError
             else
               Inr (header @ body
                    @ [Rule, StatsHeader, TotalTickers n_total,
                       AnomaliesFound (length anoms)
                         (real (length anoms) / real_of_int n_total * 100),
                       DaysUsed (length base_period)]
                    @ (if warns \<noteq> []
                       then [Blank, WarningsHeader] @ map WarningLine (take 10 warns)
                            @ (if length warns > 10 then [MoreWarnings (length warns - 10)]
                               else [])
                       else [])
                    @ [Rule]))"

section \<open>Dictionaries\<close>

lemma map_of_dict_set: "map_of (dict_set d k v) = (map_of d)(k \<mapsto> v)"
  by (induction d k v rule: dict_set.induct) auto

lemma keys_dict_set:
  "map fst (dict_set d k v) = (if k \<in> fst ` set d then map fst d else map fst d @ [k])"
  by (induction d k v rule: dict_set.induct) auto

lemma map_of_dict_modify:
  "map_of (dict_modify d k f) =
     (case map_of d k of None \<Rightarrow> map_of d | Some v \<Rightarrow> (map_of d)(k \<mapsto> f v))"
  by (induction d k f rule: dict_modify.induct) (auto split: option.splits)

lemma keys_dict_modify: "map fst (dict_modify d k f) = map fst d"
  by (induction d k f rule: dict_modify.induct) auto

section \<open>Aggregation\<close>

lemma aggregate_loop_Cons:
  "aggregate_loop (row # rest) acc =
     (if startswith (SECID row) EXCLUDED_TICKER_PREFIXES then aggregate_loop rest acc
      else aggregate_loop rest (agg_step row acc))"
  by (simp add: agg_step_def new_entry_def Let_def)

lemma map_of_agg_step:
  "map_of (agg_step row acc) =
     (map_of acc)(SECID row \<mapsto>
        add_row (case map_of acc (SECID row) of None \<Rightarrow> new_entry row | Some a \<Rightarrow> a) row)"
  by (auto simp: agg_step_def Let_def map_of_dict_modify map_of_dict_set add_row_def
      split: option.splits)

lemma keys_agg_step:
  "map fst (agg_step row acc) =
     (if SECID row \<in> fst ` set acc then map fst acc else map fst acc @ [SECID row])"
  by (auto simp: agg_step_def Let_def keys_dict_modify keys_dict_set map_of_eq_None_iff)

lemma key_set_agg_step: "fst ` set (agg_step row acc) = insert (SECID row) (fst ` set acc)"
proof -
  have "set (map fst (agg_step row acc)) = insert (SECID row) (set (map fst acc))"
    unfolding keys_agg_step by auto
  then show ?thesis by simp
qed

lemma map_of_aggregate_loop:
  "map_of (aggregate_loop rows acc) k =
     (if startswith k EXCLUDED_TICKER_PREFIXES then map_of acc k
      else case filter (\<lambda>r. SECID r = k) rows of
             [] \<Rightarrow> map_of acc k
           | r # rs \<Rightarrow> Some (foldl add_row
                (case map_of acc k of None \<Rightarrow> new_entry r | Some a \<Rightarrow> a) (r # rs)))"
proof (induction rows arbitrary: acc)
  case Nil
  show ?case by simp
next
  case (Cons row rest)
  show ?case
  proof (cases "startswith (SECID row) EXCLUDED_TICKER_PREFIXES")
    case True
    then show ?thesis
      by (auto simp: aggregate_loop_Cons Cons.IH simp del: aggregate_loop.simps)
  next
    case False
    then show ?thesis
      by (auto simp: aggregate_loop_Cons Cons.IH map_of_agg_step simp del: aggregate_loop.simps
          split: list.splits option.splits)
  qed
qed

lemma distinct_aggregate_loop:
  "distinct (map fst acc) \<Longrightarrow> distinct (map fst (aggregate_loop rows acc))"
proof (induction rows arbitrary: acc)
  case Nil
  then show ?case by simp
next
  case (Cons row rest)
  have "distinct (map fst (agg_step row acc))"
    using Cons.prems by (auto simp: keys_agg_step)
  with Cons show ?case
    by (simp add: aggregate_loop_Cons del: aggregate_loop.simps)
qed

lemma keys_aggregate_loop:
  "fst ` set (aggregate_loop rows acc) =
     fst ` set acc \<union>
     {SECID r | r. r \<in> set rows \<and> \<not> startswith (SECID r) EXCLUDED_TICKER_PREFIXES}"
proof (induction rows arbitrary: acc)
  case Nil
  then show ?case by simp
next
  case (Cons row rest)
  show ?case
    by (auto simp add: aggregate_loop_Cons Cons.IH key_set_agg_step
        simp del: aggregate_loop.simps)
qed

lemma foldl_add_row_fields:
  "shortname (foldl add_row a rs) = shortname a"
  "volume (foldl add_row a rs) = volume a + sum_list (map (\<lambda>r. or0 (VOLUME r)) rs)"
  "tvalue (foldl add_row a rs) = tvalue a + sum_list (map (\<lambda>r. or0 (VALUE r)) rs)"
  "numtrades (foldl add_row a rs) = numtrades a + sum_list (map (\<lambda>r. or0 (NUMTRADES r)) rs)"
  by (induction rs arbitrary: a) (simp_all add: add_row_def)

lemma foldl_add_row_new_entry:
  "foldl add_row (new_entry r) rs =
     \<lparr>shortname = SHORTNAME r,
      volume = sum_list (map (\<lambda>r. or0 (VOLUME r)) rs),
      tvalue = sum_list (map (\<lambda>r. or0 (VALUE r)) rs),
      numtrades = sum_list (map (\<lambda>r. or0 (NUMTRADES r)) rs)\<rparr>"
  by (rule ticker_info.equality) (simp_all add: foldl_add_row_fields new_entry_def)

text \<open>
  Claim C2. For every list of raw rows the result of \<open>aggregate_ticker_data\<close> has each
  ticker at most once, has no ticker that starts with an excluded prefix, and for every
  ticker that is not excluded it holds exactly one record when the ticker has rows, with
  the short name of the first of these rows and with volume, value and trade count summed
  over all of them, a \<open>null\<close> counting as zero; a ticker without rows has no record.
\<close>

theorem aggregate_ticker_data_sums:
  "distinct (map fst (aggregate_ticker_data raw_data)) \<and>
   (\<forall>k \<in> fst ` set (aggregate_ticker_data raw_data).
      \<not> startswith k EXCLUDED_TICKER_PREFIXES) \<and>
   (\<forall>k. \<not> startswith k EXCLUDED_TICKER_PREFIXES \<longrightarrow>
      map_of (aggregate_ticker_data raw_data) k =
        (case filter (\<lambda>r. SECID r = k) raw_data of
           [] \<Rightarrow> None
         | r # rs \<Rightarrow>
             Some \<lparr>shortname = SHORTNAME r,
                   volume = sum_list (map (\<lambda>r. or0 (VOLUME r)) (r # rs)),
                   tvalue = sum_list (map (\<lambda>r. or0 (VALUE r)) (r # rs)),
                   numtrades = sum_list (map (\<lambda>r. or0 (NUMTRADES r)) (r # rs))\<rparr>))"
proof (intro conjI allI impI ballI)
  show "distinct (map fst (aggregate_ticker_data raw_data))"
    by (simp add: aggregate_ticker_data_def distinct_aggregate_loop)
next
  fix k
  assume "k \<in> fst ` set (aggregate_ticker_data raw_data)"
  then show "\<not> startswith k EXCLUDED_TICKER_PREFIXES"
    by (auto simp: aggregate_ticker_data_def keys_aggregate_loop)
next
  fix k
  assume "\<not> startswith k EXCLUDED_TICKER_PREFIXES"
  then show "map_of (aggregate_ticker_data raw_data) k =
        (case filter (\<lambda>r. SECID r = k) raw_data of
           [] \<Rightarrow> None
         | r # rs \<Rightarrow>
             Some \<lparr>shortname = SHORTNAME r,
                   volume = sum_list (map (\<lambda>r. or0 (VOLUME r)) (r # rs)),
                   tvalue = sum_list (map (\<lambda>r. or0 (VALUE r)) (r # rs)),
                   numtrades = sum_list (map (\<lambda>r. or0 (NUMTRADES r)) (r # rs))\<rparr>)"
    unfolding aggregate_ticker_data_def map_of_aggregate_loop
    by (simp add: foldl_add_row_new_entry split: list.splits del: foldl_Cons)
qed

theorem aggregate_ticker_data_sums_witness:
  "\<not> startswith ''SBER'' EXCLUDED_TICKER_PREFIXES \<and>
   startswith ''RU000A0JX0J2'' EXCLUDED_TICKER_PREFIXES \<and>
   map_of (aggregate_ticker_data
     [\<lparr>SECID = ''SBER'', SHORTNAME = ''Sberbank'', VOLUME = Some 10, VALUE = Some 100,
       NUMTRADES = Some 2\<rparr>,
      \<lparr>SECID = ''RU000A0JX0J2'', SHORTNAME = ''Bond'', VOLUME = Some 5, VALUE = Some 70,
       NUMTRADES = Some 1\<rparr>,
      \<lparr>SECID = ''SBER'', SHORTNAME = ''Sber-2'', VOLUME = None, VALUE = Some 50,
       NUMTRADES = None\<rparr>]) ''SBER''
     = Some \<lparr>shortname = ''Sberbank'', volume = 10, tvalue = 150, numtrades = 2\<rparr> \<and>
   ''RU000A0JX0J2'' \<notin> fst ` set (aggregate_ticker_data
     [\<lparr>SECID = ''SBER'', SHORTNAME = ''Sberbank'', VOLUME = Some 10, VALUE = Some 100,
       NUMTRADES = Some 2\<rparr>,
      \<lparr>SECID = ''RU000A0JX0J2'', SHORTNAME = ''Bond'', VOLUME = Some 5, VALUE = Some 70,
       NUMTRADES = Some 1\<rparr>,
      \<lparr>SECID = ''SBER'', SHORTNAME = ''Sber-2'', VOLUME = None, VALUE = Some 50,
       NUMTRADES = None\<rparr>])"
proof -
  have a: "\<not> startswith ''SBER'' EXCLUDED_TICKER_PREFIXES"
    by (simp add: startswith_def EXCLUDED_TICKER_PREFIXES_def)
  have b: "startswith ''RU000A0JX0J2'' EXCLUDED_TICKER_PREFIXES"
    by (simp add: startswith_def EXCLUDED_TICKER_PREFIXES_def)
  note t = aggregate_ticker_data_sums [of
     "[\<lparr>SECID = ''SBER'', SHORTNAME = ''Sberbank'', VOLUME = Some 10, VALUE = Some 100,
       NUMTRADES = Some 2\<rparr>,
      \<lparr>SECID = ''RU000A0JX0J2'', SHORTNAME = ''Bond'', VOLUME = Some 5, VALUE = Some 70,
       NUMTRADES = Some 1\<rparr>,
      \<lparr>SECID = ''SBER'', SHORTNAME = ''Sber-2'', VOLUME = None, VALUE = Some 50,
       NUMTRADES = None\<rparr>]"]
  from t a have c: "map_of (aggregate_ticker_data
     [\<lparr>SECID = ''SBER'', SHORTNAME = ''Sberbank'', VOLUME = Some 10, VALUE = Some 100,
       NUMTRADES = Some 2\<rparr>,
      \<lparr>SECID = ''RU000A0JX0J2'', SHORTNAME = ''Bond'', VOLUME = Some 5, VALUE = Some 70,
       NUMTRADES = Some 1\<rparr>,
      \<lparr>SECID = ''SBER'', SHORTNAME = ''Sber-2'', VOLUME = None, VALUE = Some 50,
       NUMTRADES = None\<rparr>]) ''SBER''
     = Some \<lparr>shortname = ''Sberbank'', volume = 10, tvalue = 150, numtrades = 2\<rparr>"
    by simp
  from t b have d: "''RU000A0JX0J2'' \<notin> fst ` set (aggregate_ticker_data
     [\<lparr>SECID = ''SBER'', SHORTNAME = ''Sberbank'', VOLUME = Some 10, VALUE = Some 100,
       NUMTRADES = Some 2\<rparr>,
      \<lparr>SECID = ''RU000A0JX0J2'', SHORTNAME = ''Bond'', VOLUME = Some 5, VALUE = Some 70,
       NUMTRADES = Some 1\<rparr>,
      \<lparr>SECID = ''SBER'', SHORTNAME = ''Sber-2'', VOLUME = None, VALUE = Some 50,
       NUMTRADES = None\<rparr>])"
    by blast
  from a b c d show ?thesis by blast
qed

section \<open>Statistics\<close>

lemmas eval_excl = startswith_def EXCLUDED_TICKER_PREFIXES_def name_excluded_def
  EXCLUDED_SHORTNAME_KEYWORDS_def upper_def upper_char_def sublist_Cons_right

lemma calculate_loop_Cons:
  "calculate_loop base_data ((t, info) # rest) (stats, warns) =
     (if scored base_data t info
      then calculate_loop base_data rest
             (dict_set stats t (score (collect_values base_data t) info),
              if length (collect_values base_data t) \<ge> 2 then warns
              else warns @ [warning_message t (length (collect_values base_data t))])
      else calculate_loop base_data rest (stats, warns))"
  by (simp add: scored_def score_def synthetic_std_def Let_def)

lemma calculate_loop_other:
  "t \<notin> fst ` set items \<Longrightarrow>
     map_of (fst (calculate_loop base_data items acc)) t = map_of (fst acc) t"
proof (induction items arbitrary: acc)
  case Nil
  show ?case by (cases acc) simp
next
  case (Cons item items)
  obtain t' info where item: "item = (t', info)" by (cases item)
  obtain stats warns where acc: "acc = (stats, warns)" by (cases acc)
  from Cons.prems item have "t' \<noteq> t" and "t \<notin> fst ` set items" by auto
  then show ?case
    unfolding item acc calculate_loop_Cons
    by (simp add: Cons.IH map_of_dict_set del: calculate_loop.simps)
qed

lemma calculate_loop_scored:
  "distinct (map fst items) \<Longrightarrow> (t, info) \<in> set items \<Longrightarrow> scored base_data t info \<Longrightarrow>
     map_of (fst (calculate_loop base_data items acc)) t =
       Some (score (collect_values base_data t) info)"
proof (induction items arbitrary: acc)
  case Nil
  then show ?case by simp
next
  case (Cons item items)
  obtain t' info' where item: "item = (t', info')" by (cases item)
  obtain stats warns where acc: "acc = (stats, warns)" by (cases acc)
  show ?case
  proof (cases "(t, info) = item")
    case True
    with Cons.prems item have "t \<notin> fst ` set items" by auto
    with True Cons.prems(3) show ?thesis
      unfolding item acc calculate_loop_Cons
      by (simp add: calculate_loop_other map_of_dict_set del: calculate_loop.simps)
  next
    case False
    with Cons.prems have "(t, info) \<in> set items" "distinct (map fst items)" by auto
    then show ?thesis
      unfolding item acc calculate_loop_Cons
      by (simp add: Cons.IH Cons.prems(3) del: calculate_loop.simps)
  qed
qed

lemma calculate_loop_warnings:
  "snd (calculate_loop base_data items acc) =
     snd acc @ map (\<lambda>(t, info). warning_message t (length (collect_values base_data t)))
       (filter (\<lambda>(t, info). scored base_data t info \<and> length (collect_values base_data t) < 2) items)"
proof (induction items arbitrary: acc)
  case Nil
  show ?case by (cases acc) simp
next
  case (Cons item items)
  obtain t' info' where item: "item = (t', info')" by (cases item)
  obtain stats warns where acc: "acc = (stats, warns)" by (cases acc)
  show ?case
    unfolding item acc calculate_loop_Cons
    by (simp add: Cons.IH del: calculate_loop.simps)
qed

lemma mean_single: "mean [v] = v"
  by (simp add: mean_def)

lemma spec_warning_message_5: "spec_warning_message t n 5 = warning_message t n"
  by (simp add: spec_warning_message_def warning_message_def digit_char_def)

lemma scored_short_iff:
  "scored base_data t info \<and> length (collect_values base_data t) < 2 \<longleftrightarrow>
   scored base_data t info \<and> length (collect_values base_data t) = 1"
  by (cases "collect_values base_data t") (auto simp: scored_def)

text \<open>
  Claim C1. For every ticker of the target snapshot that is not excluded by its prefix or
  by its short name and that has exactly one baseline value \<open>v\<close> (so the mean is \<open>v\<close>),
  \<open>calculate_statistics\<close> records a standard deviation of one hundredth of the mean when
  the mean is positive and of 1 when it is zero, records the z-score as the current value
  minus the mean, divided by that standard deviation, and has a warning for the ticker
  among its warnings. The target snapshot is a dict, so its keys are distinct.
\<close>

theorem single_baseline_value:
  assumes "distinct (map fst target_data)"
    and "(t, info) \<in> set target_data"
    and "\<not> startswith t EXCLUDED_TICKER_PREFIXES"
    and "\<not> name_excluded (shortname info)"
    and "collect_values base_data t = [v]"
  shows "\<exists>st. map_of (fst (calculate_statistics base_data target_data)) t = Some st \<and>
           mean_value st = v \<and>
           std_value st = (if v > 0 then v * 0.01 else 1) \<and>
           (v = 0 \<longrightarrow> std_value st = 1) \<and>
           std_value st > 0 \<and>
           z_score st = (tvalue info - v) / std_value st \<and>
           current_value st = tvalue info \<and>
           base_days_count st = 1 \<and>
           warning_message t 1 \<in> set (snd (calculate_statistics base_data target_data))"
proof -
  have sc: "scored base_data t info"
    using assms by (simp add: scored_def)
  have m: "map_of (fst (calculate_statistics base_data target_data)) t = Some (score [v] info)"
    using calculate_loop_scored [OF assms(1,2) sc] assms(5)
    by (simp add: calculate_statistics_def)
  have w: "warning_message t 1 \<in> set (snd (calculate_statistics base_data target_data))"
    using assms(2,5) sc
    by (force simp add: calculate_statistics_def calculate_loop_warnings)
  show ?thesis
    using m w by (simp add: score_def synthetic_std_def mean_single Let_def)
qed

theorem single_baseline_value_witness:
  "\<exists>st. map_of (fst (calculate_statistics
       [[(''SBER'', \<lparr>shortname = ''Sberbank'', volume = 7, tvalue = 200, numtrades = 2\<rparr>)], []]
       [(''SBER'', \<lparr>shortname = ''Sberbank'', volume = 9, tvalue = 500, numtrades = 4\<rparr>)]))
       ''SBER'' = Some st \<and>
     std_value st = 2 \<and> z_score st = 150 \<and>
     warning_message ''SBER'' 1 \<in> set (snd (calculate_statistics
       [[(''SBER'', \<lparr>shortname = ''Sberbank'', volume = 7, tvalue = 200, numtrades = 2\<rparr>)], []]
       [(''SBER'', \<lparr>shortname = ''Sberbank'', volume = 9, tvalue = 500, numtrades = 4\<rparr>)]))"
  using single_baseline_value [of
      "[(''SBER'', \<lparr>shortname = ''Sberbank'', volume = 9, tvalue = 500, numtrades = 4\<rparr>)]"
      "''SBER''" "\<lparr>shortname = ''Sberbank'', volume = 9, tvalue = 500, numtrades = 4\<rparr>"
      "[[(''SBER'', \<lparr>shortname = ''Sberbank'', volume = 7, tvalue = 200, numtrades = 2\<rparr>)], []]"
      200]
  by (auto simp add: eval_excl)

text \<open>
  Claim C4. With five baseline days of value 100 each and a target value of 500 the ticker
  gets mean 100, sample standard deviation 0, z-score 0 and a deviation of 400 percent, and
  \<open>find_anomalies\<close> with threshold 3 does not return it although 400 exceeds the minimum
  deviation. The same holds with all values scaled by a million, where the mean also
  reaches the minimum average value, so that the z-score test alone keeps the ticker out.
\<close>

theorem zero_std_scenario:
  "calculate_statistics
     (replicate 5 [(''SBER'', \<lparr>shortname = ''Sberbank'', volume = 1, tvalue = 100, numtrades = 1\<rparr>)])
     [(''SBER'', \<lparr>shortname = ''Sberbank'', volume = 1, tvalue = 500, numtrades = 1\<rparr>)]
   = ([(''SBER'', \<lparr>st_shortname = ''Sberbank'', current_value = 500, mean_value = 100,
          std_value = 0, z_score = 0, deviation_pct = 400, base_days_count = 5\<rparr>)], []) \<and>
   find_anomalies (fst (calculate_statistics
     (replicate 5 [(''SBER'', \<lparr>shortname = ''Sberbank'', volume = 1, tvalue = 100, numtrades = 1\<rparr>)])
     [(''SBER'', \<lparr>shortname = ''Sberbank'', volume = 1, tvalue = 500, numtrades = 1\<rparr>)])) 3 = [] \<and>
   (400::real) > MIN_DEVIATION_PERCENT \<and>
   calculate_statistics
     (replicate 5 [(''SBER'', \<lparr>shortname = ''Sberbank'', volume = 1, tvalue = 100000000, numtrades = 1\<rparr>)])
     [(''SBER'', \<lparr>shortname = ''Sberbank'', volume = 1, tvalue = 500000000, numtrades = 1\<rparr>)]
   = ([(''SBER'', \<lparr>st_shortname = ''Sberbank'', current_value = 500000000,
          mean_value = 100000000, std_value = 0, z_score = 0, deviation_pct = 400,
          base_days_count = 5\<rparr>)], []) \<and>
   (100000000::real) \<ge> MIN_AVG_VALUE \<and>
   find_anomalies (fst (calculate_statistics
     (replicate 5 [(''SBER'', \<lparr>shortname = ''Sberbank'', volume = 1, tvalue = 100000000, numtrades = 1\<rparr>)])
     [(''SBER'', \<lparr>shortname = ''Sberbank'', volume = 1, tvalue = 500000000, numtrades = 1\<rparr>)])) 3 = []"
  by (simp add: calculate_statistics_def eval_excl mean_def stdev_def numeral_eq_Suc
      find_anomalies_def is_anomaly_def sort_reverse_def MIN_DEVIATION_PERCENT_def MIN_AVG_VALUE_def)

text \<open>
  Claim C10, as amended. For every number of baseline snapshots, the warnings of
  \<open>calculate_statistics\<close> are, in the order of the target snapshot, one message for each
  scored ticker with exactly one baseline value; the message names the ticker and the
  number of values found, which is 1, and ends with the literal 5 whatever the number of
  baseline snapshots is.
\<close>

theorem warning_message_window_literal:
  "snd (calculate_statistics base_data target_data) =
     map (\<lambda>(t, info). spec_warning_message t 1 5)
       (filter (\<lambda>(t, info). scored base_data t info \<and> length (collect_values base_data t) = 1)
          target_data)"
proof -
  have f: "filter (\<lambda>(t, info). scored base_data t info \<and> length (collect_values base_data t) < 2)
             target_data =
           filter (\<lambda>(t, info). scored base_data t info \<and> length (collect_values base_data t) = 1)
             target_data"
    by (rule filter_cong) (auto simp: scored_short_iff)
  show ?thesis
    unfolding calculate_statistics_def calculate_loop_warnings f
    by (auto simp: spec_warning_message_5)
qed

theorem warning_message_window_literal_witness:
  "snd (calculate_statistics
       [[(''SBER'', \<lparr>shortname = ''Sberbank'', volume = 7, tvalue = 200, numtrades = 2\<rparr>)], [], []]
       [(''SBER'', \<lparr>shortname = ''Sberbank'', volume = 9, tvalue = 500, numtrades = 4\<rparr>),
        (''GAZP'', \<lparr>shortname = ''Gazprom'', volume = 9, tvalue = 500, numtrades = 4\<rparr>)])
     = [''Tiker SBER: tolko 1 den(ej) dannyh vmesto 5'']"
  using warning_message_window_literal [of
       "[[(''SBER'', \<lparr>shortname = ''Sberbank'', volume = 7, tvalue = 200, numtrades = 2\<rparr>)], [], []]"
       "[(''SBER'', \<lparr>shortname = ''Sberbank'', volume = 9, tvalue = 500, numtrades = 4\<rparr>),
        (''GAZP'', \<lparr>shortname = ''Gazprom'', volume = 9, tvalue = 500, numtrades = 4\<rparr>)]"]
  by (simp add: scored_def eval_excl spec_warning_message_def digit_char_def)

text \<open>Claim C10 as stated fails: with a single baseline snapshot the message still says 5,
  not 1.\<close>

theorem warning_message_window_counterexample:
  "length [[(''SBER'', \<lparr>shortname = ''Sberbank'', volume = 7, tvalue = 200, numtrades = 2\<rparr>)]] = 1 \<and>
   snd (calculate_statistics
       [[(''SBER'', \<lparr>shortname = ''Sberbank'', volume = 7, tvalue = 200, numtrades = 2\<rparr>)]]
       [(''SBER'', \<lparr>shortname = ''Sberbank'', volume = 9, tvalue = 500, numtrades = 4\<rparr>)])
     = [''Tiker SBER: tolko 1 den(ej) dannyh vmesto 5''] \<and>
   snd (calculate_statistics
       [[(''SBER'', \<lparr>shortname = ''Sberbank'', volume = 7, tvalue = 200, numtrades = 2\<rparr>)]]
       [(''SBER'', \<lparr>shortname = ''Sberbank'', volume = 9, tvalue = 500, numtrades = 4\<rparr>)])
     \<noteq> [spec_warning_message ''SBER'' 1
          (length [[(''SBER'', \<lparr>shortname = ''Sberbank'', volume = 7, tvalue = 200, numtrades = 2\<rparr>)]])]"
  by (simp add: calculate_statistics_def eval_excl mean_def warning_message_def
      spec_warning_message_def digit_char_def)

section \<open>Selection and ranking\<close>

lemma sort_reverse_set: "set (sort_reverse key xs) = set xs"
  by (simp add: sort_reverse_def)

lemma sort_reverse_mset: "mset (sort_reverse key xs) = mset xs"
  by (simp add: sort_reverse_def)

lemma sort_reverse_sorted: "sorted_wrt (\<lambda>a b. a \<ge> b) (map key (sort_reverse key xs))"
proof -
  have "sorted (map key (sort_key key (rev xs)))" by simp
  then have "sorted (rev (map key (sort_reverse key xs)))"
    by (simp add: sort_reverse_def rev_map)
  then show ?thesis
    by (simp add: sorted_wrt_rev)
qed

lemma sort_reverse_stable:
  "filter (\<lambda>x. key x = c) (sort_reverse key xs) = filter (\<lambda>x. key x = c) xs"
  by (simp add: sort_reverse_def rev_filter [symmetric] sort_key_stable)

lemma filter_key_short:
  "distinct (map key xs) \<Longrightarrow> length (filter (\<lambda>x. key x = c) xs) \<le> 1"
proof (induction xs)
  case Nil
  show ?case by simp
next
  case (Cons a xs)
  show ?case
  proof (cases "key a = c")
    case True
    from Cons.prems have "key a \<notin> key ` set xs" by simp
    with True have "\<forall>x \<in> set xs. key x \<noteq> c" by (metis image_eqI)
    then have "filter (\<lambda>x. key x = c) xs = []" by (simp add: filter_empty_conv)
    with True show ?thesis by simp
  next
    case False
    with Cons show ?thesis by simp
  qed
qed

lemma rev_short: "length ys \<le> 1 \<Longrightarrow> rev ys = ys"
  by (cases ys) auto

lemma filter_rev_distinct:
  assumes "distinct (map key xs)"
  shows "filter (\<lambda>x. key x = c) (rev xs) = filter (\<lambda>x. key x = c) xs"
proof -
  have "rev (filter (\<lambda>x. key x = c) xs) = filter (\<lambda>x. key x = c) xs"
    by (rule rev_short) (rule filter_key_short [OF assms])
  then show ?thesis by (simp only: rev_filter)
qed

lemma sort_key_rev_distinct:
  assumes "distinct (map key xs)"
  shows "sort_key key (rev xs) = sort_key key xs"
proof (rule properties_for_sort_key [symmetric])
  show "mset (sort_key key (rev xs)) = mset xs" by simp
  show "sorted (map key (sort_key key (rev xs)))" by simp
  fix k
  have "filter (\<lambda>x. key x = key k) (rev xs) = filter (\<lambda>x. key x = key k) xs"
    by (rule filter_rev_distinct [OF assms])
  then show "filter (\<lambda>x. key k = key x) (sort_key key (rev xs)) = filter (\<lambda>x. key k = key x) xs"
    using sort_key_stable [of key "key k" "rev xs"] by (simp add: eq_commute)
qed

lemma sort_reverse_rev_distinct:
  "distinct (map key xs) \<Longrightarrow> sort_reverse key (rev xs) = sort_reverse key xs"
  by (simp add: sort_reverse_def sort_key_rev_distinct)

lemma distinct_sort_reverse:
  "distinct (map key (sort_reverse key xs)) = distinct (map key xs)"
proof -
  have "mset (map key (sort_reverse key xs)) = mset (map key xs)"
    by (simp add: sort_reverse_mset)
  then show ?thesis by (rule mset_eq_imp_distinct_iff)
qed

text \<open>
  Claim C3. An entry of the statistics is returned by \<open>find_anomalies\<close> if and only if
  its z-score is greater than the threshold, its deviation is greater than
  \<open>MIN_DEVIATION_PERCENT\<close>, which is 300, and its mean is at least \<open>MIN_AVG_VALUE\<close>,
  which is 10,000,000; an entry that fails any one of the three tests is not returned,
  whatever the other two say.
\<close>

theorem find_anomalies_selects:
  "((t, info) \<in> set (find_anomalies stats threshold) \<longleftrightarrow>
      (t, info) \<in> set stats \<and> z_score info > threshold \<and>
      deviation_pct info > MIN_DEVIATION_PERCENT \<and> mean_value info \<ge> MIN_AVG_VALUE) \<and>
   (\<not> z_score info > threshold \<longrightarrow> (t, info) \<notin> set (find_anomalies stats threshold)) \<and>
   (\<not> deviation_pct info > MIN_DEVIATION_PERCENT \<longrightarrow>
      (t, info) \<notin> set (find_anomalies stats threshold)) \<and>
   (\<not> mean_value info \<ge> MIN_AVG_VALUE \<longrightarrow> (t, info) \<notin> set (find_anomalies stats threshold)) \<and>
   MIN_DEVIATION_PERCENT = 300 \<and> MIN_AVG_VALUE = 10000000"
  by (auto simp: find_anomalies_def sort_reverse_set is_anomaly_def
      MIN_DEVIATION_PERCENT_def MIN_AVG_VALUE_def)

theorem find_anomalies_selects_witness:
  "(''A'', \<lparr>st_shortname = ''a'', current_value = 100000000, mean_value = 20000000,
        std_value = 16000000, z_score = 5, deviation_pct = 400, base_days_count = 5\<rparr>)
     \<in> set (find_anomalies
        [(''A'', \<lparr>st_shortname = ''a'', current_value = 100000000, mean_value = 20000000,
            std_value = 16000000, z_score = 5, deviation_pct = 400, base_days_count = 5\<rparr>),
         (''B'', \<lparr>st_shortname = ''b'', current_value = 100000000, mean_value = 20000000,
            std_value = 40000000, z_score = 2, deviation_pct = 400, base_days_count = 5\<rparr>)] 3) \<and>
   (''B'', \<lparr>st_shortname = ''b'', current_value = 100000000, mean_value = 20000000,
        std_value = 40000000, z_score = 2, deviation_pct = 400, base_days_count = 5\<rparr>)
     \<notin> set (find_anomalies
        [(''A'', \<lparr>st_shortname = ''a'', current_value = 100000000, mean_value = 20000000,
            std_value = 16000000, z_score = 5, deviation_pct = 400, base_days_count = 5\<rparr>),
         (''B'', \<lparr>st_shortname = ''b'', current_value = 100000000, mean_value = 20000000,
            std_value = 40000000, z_score = 2, deviation_pct = 400, base_days_count = 5\<rparr>)] 3)"
  using find_anomalies_selects [of "''A''"
      "\<lparr>st_shortname = ''a'', current_value = 100000000, mean_value = 20000000,
        std_value = 16000000, z_score = 5, deviation_pct = 400, base_days_count = 5\<rparr>"
      "[(''A'', \<lparr>st_shortname = ''a'', current_value = 100000000, mean_value = 20000000,
            std_value = 16000000, z_score = 5, deviation_pct = 400, base_days_count = 5\<rparr>),
         (''B'', \<lparr>st_shortname = ''b'', current_value = 100000000, mean_value = 20000000,
            std_value = 40000000, z_score = 2, deviation_pct = 400, base_days_count = 5\<rparr>)]" 3]
    find_anomalies_selects [of "''B''"
      "\<lparr>st_shortname = ''b'', current_value = 100000000, mean_value = 20000000,
        std_value = 40000000, z_score = 2, deviation_pct = 400, base_days_count = 5\<rparr>"
      "[(''A'', \<lparr>st_shortname = ''a'', current_value = 100000000, mean_value = 20000000,
            std_value = 16000000, z_score = 5, deviation_pct = 400, base_days_count = 5\<rparr>),
         (''B'', \<lparr>st_shortname = ''b'', current_value = 100000000, mean_value = 20000000,
            std_value = 40000000, z_score = 2, deviation_pct = 400, base_days_count = 5\<rparr>)]" 3]
  by simp

text \<open>
  Claim C5, as amended. The result of \<open>find_anomalies\<close> is sorted by z-score in descending
  order, entries with the same z-score stay in the order of the input mapping, and when
  the returned z-scores are pairwise different the result for the reversed mapping is the
  same sequence.
\<close>

theorem find_anomalies_sorted_stable:
  "sorted_wrt (\<lambda>a b. a \<ge> b) (map (\<lambda>x. z_score (snd x)) (find_anomalies stats threshold)) \<and>
   filter (\<lambda>x. z_score (snd x) = c) (find_anomalies stats threshold) =
     filter (\<lambda>x. z_score (snd x) = c)
       (filter (\<lambda>(ticker, info). is_anomaly threshold info) stats) \<and>
   (distinct (map (\<lambda>x. z_score (snd x)) (find_anomalies stats threshold)) \<longrightarrow>
      find_anomalies (rev stats) threshold = find_anomalies stats threshold)"
  by (simp add: find_anomalies_def sort_reverse_sorted sort_reverse_stable distinct_sort_reverse
      sort_reverse_rev_distinct rev_filter [symmetric])

theorem find_anomalies_sorted_stable_witness:
  "distinct (map (\<lambda>x. z_score (snd x)) (find_anomalies
     [(''A'', \<lparr>st_shortname = ''a'', current_value = 100000000, mean_value = 20000000,
         std_value = 16000000, z_score = 5, deviation_pct = 400, base_days_count = 5\<rparr>),
      (''B'', \<lparr>st_shortname = ''b'', current_value = 120000000, mean_value = 20000000,
         std_value = 16000000, z_score = 25 / 4, deviation_pct = 500, base_days_count = 5\<rparr>)] 3)) \<and>
   find_anomalies (rev
     [(''A'', \<lparr>st_shortname = ''a'', current_value = 100000000, mean_value = 20000000,
         std_value = 16000000, z_score = 5, deviation_pct = 400, base_days_count = 5\<rparr>),
      (''B'', \<lparr>st_shortname = ''b'', current_value = 120000000, mean_value = 20000000,
         std_value = 16000000, z_score = 25 / 4, deviation_pct = 500, base_days_count = 5\<rparr>)]) 3
   = [(''B'', \<lparr>st_shortname = ''b'', current_value = 120000000, mean_value = 20000000,
         std_value = 16000000, z_score = 25 / 4, deviation_pct = 500, base_days_count = 5\<rparr>),
      (''A'', \<lparr>st_shortname = ''a'', current_value = 100000000, mean_value = 20000000,
         std_value = 16000000, z_score = 5, deviation_pct = 400, base_days_count = 5\<rparr>)]"
proof -
  have e: "find_anomalies
     [(''A'', \<lparr>st_shortname = ''a'', current_value = 100000000, mean_value = 20000000,
         std_value = 16000000, z_score = 5, deviation_pct = 400, base_days_count = 5\<rparr>),
      (''B'', \<lparr>st_shortname = ''b'', current_value = 120000000, mean_value = 20000000,
         std_value = 16000000, z_score = 25 / 4, deviation_pct = 500, base_days_count = 5\<rparr>)] 3
   = [(''B'', \<lparr>st_shortname = ''b'', current_value = 120000000, mean_value = 20000000,
         std_value = 16000000, z_score = 25 / 4, deviation_pct = 500, base_days_count = 5\<rparr>),
      (''A'', \<lparr>st_shortname = ''a'', current_value = 100000000, mean_value = 20000000,
         std_value = 16000000, z_score = 5, deviation_pct = 400, base_days_count = 5\<rparr>)]"
    by (simp add: find_anomalies_def is_anomaly_def sort_reverse_def
        MIN_DEVIATION_PERCENT_def MIN_AVG_VALUE_def)
  have d: "distinct (map (\<lambda>x. z_score (snd x)) (find_anomalies
     [(''A'', \<lparr>st_shortname = ''a'', current_value = 100000000, mean_value = 20000000,
         std_value = 16000000, z_score = 5, deviation_pct = 400, base_days_count = 5\<rparr>),
      (''B'', \<lparr>st_shortname = ''b'', current_value = 120000000, mean_value = 20000000,
         std_value = 16000000, z_score = 25 / 4, deviation_pct = 500, base_days_count = 5\<rparr>)] 3))"
    unfolding e by simp
  from d e find_anomalies_sorted_stable [of
     "[(''A'', \<lparr>st_shortname = ''a'', current_value = 100000000, mean_value = 20000000,
         std_value = 16000000, z_score = 5, deviation_pct = 400, base_days_count = 5\<rparr>),
      (''B'', \<lparr>st_shortname = ''b'', current_value = 120000000, mean_value = 20000000,
         std_value = 16000000, z_score = 25 / 4, deviation_pct = 500, base_days_count = 5\<rparr>)]" 3 0]
  show ?thesis by simp
qed

text \<open>Claim C5 as stated fails: two selected entries with the same z-score come out in the
  order they went in, so reversing the mapping reverses them.\<close>

theorem find_anomalies_reversed_ties_counterexample:
  "find_anomalies
     [(''A'', \<lparr>st_shortname = ''a'', current_value = 100000000, mean_value = 20000000,
         std_value = 16000000, z_score = 5, deviation_pct = 400, base_days_count = 5\<rparr>),
      (''B'', \<lparr>st_shortname = ''b'', current_value = 100000000, mean_value = 20000000,
         std_value = 16000000, z_score = 5, deviation_pct = 400, base_days_count = 5\<rparr>)] 3
   \<noteq> find_anomalies (rev
     [(''A'', \<lparr>st_shortname = ''a'', current_value = 100000000, mean_value = 20000000,
         std_value = 16000000, z_score = 5, deviation_pct = 400, base_days_count = 5\<rparr>),
      (''B'', \<lparr>st_shortname = ''b'', current_value = 100000000, mean_value = 20000000,
         std_value = 16000000, z_score = 5, deviation_pct = 400, base_days_count = 5\<rparr>)]) 3"
  by (simp add: find_anomalies_def is_anomaly_def sort_reverse_def
      MIN_DEVIATION_PERCENT_def MIN_AVG_VALUE_def)

section \<open>Fetching\<close>

lemma nreq_append: "nreq (tr @ es) = nreq tr + nreq es"
  by (simp add: nreq_def)

lemma nreq_simps: "nreq [] = 0" "nreq (Request d s # es) = Suc (nreq es)"
  "nreq (Sleep x # es) = nreq es" "nreq (CacheWrite d # es) = nreq es"
  by (simp_all add: nreq_def)

lemma page_events_0: "page_events date start p 0 = [Request date start]"
  by (simp add: page_events_def)

lemma page_events_Suc:
  "page_events date start p (Suc n) =
     Request date start # (if length (p 0) = 100 then [Sleep 0.5] else [])
     @ page_events date (start + 100) (\<lambda>i. p (Suc i)) n"
  unfolding page_events_def map_upt_Suc by (simp add: add.assoc)

lemma fetch_pages_run:
  assumes "\<And>i. i < n \<Longrightarrow> net (nreq tr + i) date (start + 100 * i) = Page (p i) \<and> p i \<noteq> []"
    and "net (nreq tr + n) date (start + 100 * n) = Page []"
  shows "fetch_pages net date start acc tr =
           Some (Inr (acc @ concat (map p [0..<n])), tr @ page_events date start p n)"
  using assms
proof (induction n arbitrary: start acc tr p)
  case 0
  then show ?case
    by (subst fetch_pages.simps) (simp add: page_events_0)
next
  case (Suc n)
  from Suc.prems(1) [of 0] have p0: "net (nreq tr) date start = Page (p 0)" "p 0 \<noteq> []"
    by simp_all
  let ?tr = "if length (p 0) = 100 then tr @ [Request date start, Sleep 0.5]
             else tr @ [Request date start]"
  have n: "nreq ?tr = Suc (nreq tr)"
    by (simp add: nreq_append nreq_simps)
  have a: "net (nreq ?tr + i) date (start + 100 + 100 * i) = Page (p (Suc i)) \<and> p (Suc i) \<noteq> []"
    if "i < n" for i
    using Suc.prems(1) [of "Suc i"] that unfolding n by (simp add: add.assoc)
  have b: "net (nreq ?tr + n) date (start + 100 + 100 * n) = Page []"
    using Suc.prems(2) unfolding n by (simp add: add.assoc)
  have "fetch_pages net date start acc tr = fetch_pages net date (start + 100) (acc @ p 0) ?tr"
    by (subst fetch_pages.simps) (simp add: p0)
  also have "\<dots> = Some (Inr ((acc @ p 0) @ concat (map (\<lambda>i. p (Suc i)) [0..<n])),
                      ?tr @ page_events date (start + 100) (\<lambda>i. p (Suc i)) n)"
    by (rule Suc.IH [OF a b])
  finally show ?case
    unfolding map_upt_Suc page_events_Suc by simp
qed

lemma page_events_requests:
  "filter is_request (page_events date start p n) =
     map (\<lambda>i. Request date (start + 100 * i)) [0..<Suc n]"
  by (induction n) (simp_all add: page_events_def)

lemma page_events_sleeps:
  "length (filter (\<lambda>e. e = Sleep 0.5) (page_events date start p n)) =
     length (filter (\<lambda>i. length (p i) = 100) [0..<n])"
  by (induction n) (simp_all add: page_events_def)

lemma fetch_pages_trace:
  assumes "fetch_pages net date start acc tr = Some y"
  shows "ncool (snd y) = ncool tr \<and> nwrite (snd y) = nwrite tr"
  by (rule fetch_pages.raw_induct
      [where P = "\<lambda>net date start acc tr y. ncool (snd y) = ncool tr \<and> nwrite (snd y) = nwrite tr",
       OF _ assms])
    (auto simp: ncool_def nwrite_def RETRY_DELAY_def split: response.splits if_splits)

lemma fetch_attempts_trace:
  "fetch_attempts net date attempt tr = Some (r, tr') \<Longrightarrow> nwrite tr' = nwrite tr"
proof (induction net date attempt tr rule: fetch_attempts.induct)
  case (1 net date attempt tr)
  show ?case
  proof (cases "fetch_pages net date 0 [] tr")
    case None
    with "1.prems" show ?thesis by (simp add: fetch_attempts.simps)
  next
    case (Some y)
    obtain x tr1 where y: "y = (x, tr1)" by (cases y)
    from fetch_pages_trace [OF Some] y have w: "nwrite tr1 = nwrite tr" by simp
    show ?thesis
    proof (cases x)
      case (Inr all_data)
      with "1.prems" Some y w show ?thesis by (simp add: fetch_attempts.simps)
    next
      case (Inl a)
      show ?thesis
      proof (cases "attempt < MAX_RETRIES")
        case True
        with "1.prems" Some y Inl
        have "fetch_attempts net date (attempt + 1) (tr1 @ [Sleep RETRY_DELAY]) = Some (r, tr')"
          by (simp add: fetch_attempts.simps [of net date attempt])
        from "1.IH" [OF Some y [symmetric] Inl True this] w show ?thesis
          by (simp add: nwrite_def)
      next
        case False
        with "1.prems" Some y Inl w show ?thesis
          by (simp add: fetch_attempts.simps [of net date attempt])
      qed
    qed
  qed
qed

lemma fetch_attempts_exhausted:
  "fetch_attempts net date attempt tr = Some (Inl e, tr') \<Longrightarrow> attempt \<le> MAX_RETRIES \<Longrightarrow>
     e = FetchFailed date \<and> ncool tr' = ncool tr + (MAX_RETRIES - attempt)"
proof (induction net date attempt tr rule: fetch_attempts.induct)
  case (1 net date attempt tr)
  show ?case
  proof (cases "fetch_pages net date 0 [] tr")
    case None
    with "1.prems" show ?thesis by (simp add: fetch_attempts.simps)
  next
    case (Some y)
    obtain x tr1 where y: "y = (x, tr1)" by (cases y)
    from fetch_pages_trace [OF Some] y have w: "ncool tr1 = ncool tr" by simp
    show ?thesis
    proof (cases x)
      case (Inr all_data)
      with "1.prems" Some y w show ?thesis by (simp add: fetch_attempts.simps)
    next
      case (Inl a)
      show ?thesis
      proof (cases "attempt < MAX_RETRIES")
        case True
        with "1.prems" Some y Inl
        have "fetch_attempts net date (attempt + 1) (tr1 @ [Sleep RETRY_DELAY]) = Some (Inl e, tr')"
          by (simp add: fetch_attempts.simps [of net date attempt])
        from "1.IH" [OF Some y [symmetric] Inl True this] True w show ?thesis
          by (simp add: ncool_def)
      next
        case False
        with "1.prems" Some y Inl w show ?thesis
          by (simp add: fetch_attempts.simps [of net date attempt])
      qed
    qed
  qed
qed

lemma fetch_all_fail:
  "fetch_volumes_from_api (\<lambda>k d s. RequestException) date tr =
     Some (Inl (FetchFailed date),
           tr @ [Request date 0, Sleep 60, Request date 0, Sleep 60, Request date 0, Sleep 60,
                 Request date 0, Sleep 60, Request date 0])"
  by (simp add: fetch_volumes_from_api_def fetch_attempts.simps fetch_pages.simps
      MAX_RETRIES_def RETRY_DELAY_def)

lemma fetch_empty_day:
  "fetch_volumes_from_api (\<lambda>k d s. Page []) date tr = Some (Inr [], tr @ [Request date 0])"
  by (simp add: fetch_volumes_from_api_def fetch_attempts.simps fetch_pages.simps
      aggregate_ticker_data_def)

lemma load_or_fetch_data_cases:
  "load_or_fetch_data net date force w =
     (if \<not> force \<and> cache w date \<noteq> None then Some (Inr (tickers (the (cache w date))), w)
      else case fetch_volumes_from_api net date (trace w) of
             None \<Rightarrow> None
           | Some (Inl e, tr) \<Rightarrow> Some (Inl e, w\<lparr>trace := tr\<rparr>)
           | Some (Inr data, tr) \<Rightarrow>
               Some (Inr data,
                     w\<lparr>cache := (cache w)(date \<mapsto> \<lparr>cf_date = date, tickers = data\<rparr>),
                       trace := tr @ [CacheWrite date]\<rparr>))"
  by (auto simp: load_or_fetch_data_def split: option.splits)

text \<open>
  Claim C6, as amended. In an attempt whose requests at the offsets 0, 100, 200, ... are
  answered by \<open>n\<close> non-empty pages and then by an empty one, \<open>fetch_volumes_from_api\<close>
  makes exactly the \<open>n + 1\<close> requests at these offsets, returns the aggregation of all
  rows received in order, and sleeps between two requests exactly after the pages of 100
  rows. Only the empty page ends the loop: a non-empty page of fewer than 100 rows is
  followed by the next request, without a delay.
\<close>

theorem fetch_pages_until_empty_page:
  assumes "\<forall>i<n. net (nreq tr + i) date (100 * i) = Page (p i) \<and> p i \<noteq> []"
    and "net (nreq tr + n) date (100 * n) = Page []"
  shows "fetch_pages net date 0 [] tr =
           Some (Inr (concat (map p [0..<n])), tr @ page_events date 0 p n) \<and>
         fetch_volumes_from_api net date tr =
           Some (Inr (aggregate_ticker_data (concat (map p [0..<n]))),
                 tr @ page_events date 0 p n) \<and>
         filter is_request (page_events date 0 p n) =
           map (\<lambda>i. Request date (100 * i)) [0..<Suc n] \<and>
         length (filter (\<lambda>e. e = Sleep 0.5) (page_events date 0 p n)) =
           length (filter (\<lambda>i. length (p i) = 100) [0..<n])"
proof -
  have r: "fetch_pages net date 0 [] tr =
           Some (Inr ([] @ concat (map p [0..<n])), tr @ page_events date 0 p n)"
    by (rule fetch_pages_run) (use assms in simp_all)
  then have "fetch_volumes_from_api net date tr =
           Some (Inr (aggregate_ticker_data (concat (map p [0..<n]))),
                 tr @ page_events date 0 p n)"
    by (simp add: fetch_volumes_from_api_def fetch_attempts.simps [of net date 1])
  with r show ?thesis
    using page_events_requests [of date 0 p n] page_events_sleeps [of date 0 p n] by simp
qed

theorem fetch_pages_until_empty_page_witness:
  "fetch_pages
     (\<lambda>k d s. if s = 0
        then Page (replicate 100 \<lparr>SECID = ''SBER'', SHORTNAME = ''Sberbank'', VOLUME = Some 10,
                    VALUE = Some 100, NUMTRADES = Some 2\<rparr>)
        else if s = 100
        then Page [\<lparr>SECID = ''GAZP'', SHORTNAME = ''Gazprom'', VOLUME = Some 4,
                    VALUE = Some 30, NUMTRADES = Some 1\<rparr>]
        else Page [])
     ''2026-01-30'' 0 [] []
   = Some (Inr (replicate 100 \<lparr>SECID = ''SBER'', SHORTNAME = ''Sberbank'', VOLUME = Some 10,
                   VALUE = Some 100, NUMTRADES = Some 2\<rparr> @
                 [\<lparr>SECID = ''GAZP'', SHORTNAME = ''Gazprom'', VOLUME = Some 4,
                   VALUE = Some 30, NUMTRADES = Some 1\<rparr>]),
           [Request ''2026-01-30'' 0, Sleep 0.5, Request ''2026-01-30'' 100,
            Request ''2026-01-30'' 200])"
  using fetch_pages_until_empty_page [of 2 
     "\<lambda>k d s. if s = 0
        then Page (replicate 100 \<lparr>SECID = ''SBER'', SHORTNAME = ''Sberbank'', VOLUME = Some 10,
                    VALUE = Some 100, NUMTRADES = Some 2\<rparr>)
        else if s = 100
        then Page [\<lparr>SECID = ''GAZP'', SHORTNAME = ''Gazprom'', VOLUME = Some 4,
                    VALUE = Some 30, NUMTRADES = Some 1\<rparr>]
        else Page []" "[]" "''2026-01-30''"
     "\<lambda>i. if i = 0
        then replicate 100 \<lparr>SECID = ''SBER'', SHORTNAME = ''Sberbank'', VOLUME = Some 10,
                    VALUE = Some 100, NUMTRADES = Some 2\<rparr>
        else [\<lparr>SECID = ''GAZP'', SHORTNAME = ''Gazprom'', VOLUME = Some 4,
                    VALUE = Some 30, NUMTRADES = Some 1\<rparr>]"]
  by (simp add: page_events_def less_Suc_eq numeral_2_eq_2 upt_rec)

text \<open>Claim C6 as stated fails: after a page of one row the code asks for two more pages and
  appends the row it gets.\<close>

theorem fetch_pages_short_page_counterexample:
  "length [\<lparr>SECID = ''SBER'', SHORTNAME = ''Sberbank'', VOLUME = Some 10, VALUE = Some 100,
             NUMTRADES = Some 2\<rparr>] < (100::nat) \<and>
   fetch_pages
     (\<lambda>k d s. if s = 0
        then Page [\<lparr>SECID = ''SBER'', SHORTNAME = ''Sberbank'', VOLUME = Some 10,
                    VALUE = Some 100, NUMTRADES = Some 2\<rparr>]
        else if s = 100
        then Page [\<lparr>SECID = ''GAZP'', SHORTNAME = ''Gazprom'', VOLUME = Some 4,
                    VALUE = Some 30, NUMTRADES = Some 1\<rparr>]
        else Page [])
     ''2026-01-30'' 0 [] []
   = Some (Inr [\<lparr>SECID = ''SBER'', SHORTNAME = ''Sberbank'', VOLUME = Some 10,
                   VALUE = Some 100, NUMTRADES = Some 2\<rparr>,
                 \<lparr>SECID = ''GAZP'', SHORTNAME = ''Gazprom'', VOLUME = Some 4,
                   VALUE = Some 30, NUMTRADES = Some 1\<rparr>],
           [Request ''2026-01-30'' 0, Request ''2026-01-30'' 100, Request ''2026-01-30'' 200])"
  by (simp add: fetch_pages.simps)

section \<open>The cache\<close>

text \<open>
  Claim C7. When the cache has a snapshot for the date, \<open>load_or_fetch_data\<close> with
  \<open>force = False\<close> returns the cached tickers and leaves the world as it was: no request,
  no cache write, the same cache; so a second call from the world it returns does the same.
\<close>

theorem load_or_fetch_data_cache_hit:
  assumes "cache w date = Some cached"
  shows "load_or_fetch_data net date False w = Some (Inr (tickers cached), w) \<and>
         (\<forall>r w1. load_or_fetch_data net date False w = Some (r, w1) \<longrightarrow>
            nreq (trace w1) = nreq (trace w) \<and> nwrite (trace w1) = nwrite (trace w) \<and>
            cache w1 = cache w \<and>
            load_or_fetch_data net date False w1 = Some (Inr (tickers cached), w1) \<and>
            w1 = w)"
  using assms by (simp add: load_or_fetch_data_def)

theorem load_or_fetch_data_cache_hit_witness:
  "load_or_fetch_data (\<lambda>k d s. RequestException) ''2026-01-30'' False
     \<lparr>cache = [''2026-01-30'' \<mapsto> \<lparr>cf_date = ''2026-01-30'',
          tickers = [(''SBER'', \<lparr>shortname = ''Sberbank'', volume = 7, tvalue = 200,
                                 numtrades = 2\<rparr>)]\<rparr>],
      trace = []\<rparr>
   = Some (Inr [(''SBER'', \<lparr>shortname = ''Sberbank'', volume = 7, tvalue = 200, numtrades = 2\<rparr>)],
      \<lparr>cache = [''2026-01-30'' \<mapsto> \<lparr>cf_date = ''2026-01-30'',
          tickers = [(''SBER'', \<lparr>shortname = ''Sberbank'', volume = 7, tvalue = 200,
                                 numtrades = 2\<rparr>)]\<rparr>],
      trace = []\<rparr>)"
  using load_or_fetch_data_cache_hit [of
     "\<lparr>cache = [''2026-01-30'' \<mapsto> \<lparr>cf_date = ''2026-01-30'',
          tickers = [(''SBER'', \<lparr>shortname = ''Sberbank'', volume = 7, tvalue = 200,
                                 numtrades = 2\<rparr>)]\<rparr>],
      trace = []\<rparr>" "''2026-01-30''"
     "\<lparr>cf_date = ''2026-01-30'',
          tickers = [(''SBER'', \<lparr>shortname = ''Sberbank'', volume = 7, tvalue = 200,
                                 numtrades = 2\<rparr>)]\<rparr>"
     "\<lambda>k d s. RequestException"]
  by simp

text \<open>
  Claim C8. When \<open>load_or_fetch_data\<close> fails, the cache was bypassed, the fetch failed with
  its error after all the cooldowns of the retry loop, and the cache and the number of
  cache writes are as before; if the date had no cache file, a later call with
  \<open>force = False\<close> fetches again. Whenever the fetch fails the call fails, and whenever
  the fetch succeeds, also with no tickers at all, the date is written to the cache with
  the tickers fetched.
\<close>

theorem load_or_fetch_data_failure_writes_nothing:
  "(load_or_fetch_data net date force w = Some (Inl e, w') \<longrightarrow>
      (force \<or> cache w date = None) \<and>
      fetch_volumes_from_api net date (trace w) = Some (Inl e, trace w') \<and>
      e = FetchFailed date \<and>
      ncool (trace w') = ncool (trace w) + (MAX_RETRIES - 1) \<and>
      cache w' = cache w \<and> nwrite (trace w') = nwrite (trace w) \<and>
      (cache w date = None \<longrightarrow>
         load_or_fetch_data net date False w' =
           (case fetch_volumes_from_api net date (trace w') of
              None \<Rightarrow> None
            | Some (Inl e', tr) \<Rightarrow> Some (Inl e', w'\<lparr>trace := tr\<rparr>)
            | Some (Inr data, tr) \<Rightarrow>
                Some (Inr data,
                      w'\<lparr>cache := (cache w')(date \<mapsto> \<lparr>cf_date = date, tickers = data\<rparr>),
                         trace := tr @ [CacheWrite date]\<rparr>)))) \<and>
   ((force \<or> cache w date = None) \<longrightarrow>
      fetch_volumes_from_api net date (trace w) = Some (Inl e, tr) \<longrightarrow>
      load_or_fetch_data net date force w = Some (Inl e, w\<lparr>trace := tr\<rparr>)) \<and>
   ((force \<or> cache w date = None) \<longrightarrow>
      fetch_volumes_from_api net date (trace w) = Some (Inr data, tr) \<longrightarrow>
      load_or_fetch_data net date force w =
        Some (Inr data,
              w\<lparr>cache := (cache w)(date \<mapsto> \<lparr>cf_date = date, tickers = data\<rparr>),
                trace := tr @ [CacheWrite date]\<rparr>))"
proof (intro conjI impI)
  assume f: "load_or_fetch_data net date force w = Some (Inl e, w')"
  then show c: "force \<or> cache w date = None"
    by (auto simp: load_or_fetch_data_cases split: if_splits)
  from f c obtain tr where
    tr: "fetch_volumes_from_api net date (trace w) = Some (Inl e, tr)" and w': "w' = w\<lparr>trace := tr\<rparr>"
    by (auto simp: load_or_fetch_data_cases split: if_splits option.splits sum.splits)
  from tr w' show "fetch_volumes_from_api net date (trace w) = Some (Inl e, trace w')"
    by simp
  from tr have a: "fetch_attempts net date 1 (trace w) = Some (Inl e, tr)"
    by (simp add: fetch_volumes_from_api_def)
  from fetch_attempts_exhausted [OF a] w'
  show "e = FetchFailed date" "ncool (trace w') = ncool (trace w) + (MAX_RETRIES - 1)"
    by (simp_all add: MAX_RETRIES_def)
  from w' show cw: "cache w' = cache w" by simp
  from fetch_attempts_trace [OF a] w' show "nwrite (trace w') = nwrite (trace w)" by simp
  assume "cache w date = None"
  with cw show "load_or_fetch_data net date False w' =
           (case fetch_volumes_from_api net date (trace w') of
              None \<Rightarrow> None
            | Some (Inl e', tr) \<Rightarrow> Some (Inl e', w'\<lparr>trace := tr\<rparr>)
            | Some (Inr data, tr) \<Rightarrow>
                Some (Inr data,
                      w'\<lparr>cache := (cache w')(date \<mapsto> \<lparr>cf_date = date, tickers = data\<rparr>),
                         trace := tr @ [CacheWrite date]\<rparr>))"
    by (simp add: load_or_fetch_data_cases)
next
  assume "force \<or> cache w date = None"
    and "fetch_volumes_from_api net date (trace w) = Some (Inl e, tr)"
  then show "load_or_fetch_data net date force w = Some (Inl e, w\<lparr>trace := tr\<rparr>)"
    by (auto simp: load_or_fetch_data_cases)
next
  assume "force \<or> cache w date = None"
    and "fetch_volumes_from_api net date (trace w) = Some (Inr data, tr)"
  then show "load_or_fetch_data net date force w =
        Some (Inr data,
              w\<lparr>cache := (cache w)(date \<mapsto> \<lparr>cf_date = date, tickers = data\<rparr>),
                trace := tr @ [CacheWrite date]\<rparr>)"
    by (auto simp: load_or_fetch_data_cases)
qed

theorem load_or_fetch_data_failure_writes_nothing_witness:
  "load_or_fetch_data (\<lambda>k d s. RequestException) ''2026-01-30'' False
       \<lparr>cache = Map.empty, trace = []\<rparr>
     = Some (Inl (FetchFailed ''2026-01-30''),
         \<lparr>cache = Map.empty,
          trace = [Request ''2026-01-30'' 0, Sleep 60, Request ''2026-01-30'' 0, Sleep 60,
                   Request ''2026-01-30'' 0, Sleep 60, Request ''2026-01-30'' 0, Sleep 60,
                   Request ''2026-01-30'' 0]\<rparr>) \<and>
   load_or_fetch_data (\<lambda>k d s. Page []) ''2026-01-30'' False \<lparr>cache = Map.empty, trace = []\<rparr>
     = Some (Inr [],
         \<lparr>cache = [''2026-01-30'' \<mapsto> \<lparr>cf_date = ''2026-01-30'', tickers = []\<rparr>],
          trace = [Request ''2026-01-30'' 0, CacheWrite ''2026-01-30'']\<rparr>)"
  using load_or_fetch_data_failure_writes_nothing [
      where net = "\<lambda>k d s. RequestException" and date = "''2026-01-30''" and force = False
        and w = "\<lparr>cache = Map.empty, trace = []\<rparr>" and e = "FetchFailed ''2026-01-30''"
        and w' = "\<lparr>cache = Map.empty,
          trace = [Request ''2026-01-30'' 0, Sleep 60, Request ''2026-01-30'' 0, Sleep 60,
                   Request ''2026-01-30'' 0, Sleep 60, Request ''2026-01-30'' 0, Sleep 60,
                   Request ''2026-01-30'' 0]\<rparr>"
        and tr = "[Request ''2026-01-30'' 0, Sleep 60, Request ''2026-01-30'' 0, Sleep 60,
                   Request ''2026-01-30'' 0, Sleep 60, Request ''2026-01-30'' 0, Sleep 60,
                   Request ''2026-01-30'' 0]"
        and data = "[]"]
    load_or_fetch_data_failure_writes_nothing [
      where net = "\<lambda>k d s. Page []" and date = "''2026-01-30''" and force = False
        and w = "\<lparr>cache = Map.empty, trace = []\<rparr>" and e = "FetchFailed ''2026-01-30''"
        and w' = "\<lparr>cache = Map.empty, trace = []\<rparr>"
        and tr = "[Request ''2026-01-30'' 0]" and data = "[]"]
  by (simp add: fetch_all_fail fetch_empty_day)

section \<open>Reports\<close>

text \<open>
  Claim C9, as amended. For every anomaly list, warning list and non-empty base period,
  \<open>generate_json_report\<close> with a total of 0 returns the report with the raw counts, the
  total 0 and the number of anomalies, and computes no percentage; \<open>generate_txt_report\<close>
  divides the number of anomalies by the total, so it raises \<open>ZeroDivisionError\<close> when
  the total is 0 and returns its lines, with the percentage, for every other total.
\<close>

theorem reports_with_zero_total:
  "(\<exists>r. generate_json_report anoms target_date (d # ds) 0 warns = Inr r \<and>
        total_tickers (metadata r) = 0 \<and> anomalies_found (metadata r) = length anoms \<and>
        length (anomalies r) = length anoms \<and> warnings r = warns) \<and>
   generate_txt_report anoms target_date (d # ds) 0 warns = Inl ZeroDivisionError \<and>
   (n_total \<noteq> 0 \<longrightarrow>
      (\<exists>ls. generate_txt_report anoms target_date (d # ds) n_total warns = Inr ls \<and>
         TotalTickers n_total \<in> set ls \<and>
         AnomaliesFound (length anoms) (real (length anoms) / real_of_int n_total * 100)
           \<in> set ls))"
  by (simp add: generate_json_report_def generate_txt_report_def Let_def)

theorem reports_with_zero_total_witness:
  "(4::int) \<noteq> 0 \<and>
   (\<exists>ls. generate_txt_report [] ''2026-01-30'' [''2026-01-23'', ''2026-01-29''] 4 [] = Inr ls \<and>
      TotalTickers 4 \<in> set ls \<and> AnomaliesFound 0 0 \<in> set ls) \<and>
   (\<exists>r. generate_json_report [] ''2026-01-30'' [''2026-01-23'', ''2026-01-29''] 0 [] = Inr r \<and>
      total_tickers (metadata r) = 0 \<and> anomalies_found (metadata r) = 0)"
  using reports_with_zero_total [of "[]" "''2026-01-30''" "''2026-01-23''" "[''2026-01-29'']" "[]" 4]
  by auto

text \<open>Claim C9 as stated fails: the text report with a total of 0 raises.\<close>

theorem generate_txt_report_zero_total_counterexample:
  "generate_txt_report [] ''2026-01-30'' [''2026-01-23'', ''2026-01-29''] 0 [] =
     Inl ZeroDivisionError"
  by (simp add: generate_txt_report_def)

end
